theory Spec2Isabelle
  imports Complex_Main "HOL-Library.Multiset"
begin

section \<open>Go strings\<close>

text \<open>
  A Go string is a sequence of bytes; the source files are UTF-8, so a Chinese literal of the
  source is the list of its UTF-8 bytes here. \<open>strings.Contains\<close> and
  \<open>strings.HasPrefix\<close> compare bytes.
\<close>

fun HasPrefix :: "string \<Rightarrow> string \<Rightarrow> bool" where
  "HasPrefix s [] = True"
| "HasPrefix [] (p # ps) = False"
| "HasPrefix (c # s) (p # ps) = (c = p \<and> HasPrefix s ps)"

fun Contains :: "string \<Rightarrow> string \<Rightarrow> bool" where
  "Contains [] sub = (sub = [])"
| "Contains (c # s) sub = (HasPrefix (c # s) sub \<or> Contains s sub)"

text \<open>
  \<open>strings.ToLower\<close>, on the strings whose runes outside ASCII have no lower-case form
  (all CJK text): the ASCII capitals are mapped, every other byte is kept.
\<close>

definition lower_byte :: "char \<Rightarrow> char" where
  "lower_byte c =
     (case map_of (zip ''ABCDEFGHIJKLMNOPQRSTUVWXYZ'' ''abcdefghijklmnopqrstuvwxyz'') c of
        Some l \<Rightarrow> l
      | None \<Rightarrow> c)"

definition ToLower :: "string \<Rightarrow> string" where
  "ToLower s = map lower_byte s"

text \<open>
  \<open>string(rune(n))\<close>: the UTF-8 encoding of the code point \<open>n\<close>, and of U+FFFD for a
  surrogate or a value beyond U+10FFFF. (It is not the decimal numeral of \<open>n\<close>.) The
  numbers converted are counts of context items, taken to be below \<open>2 ^ 31\<close>, where the
  conversion to \<open>rune\<close> keeps the number.
\<close>

definition string_of_rune :: "nat \<Rightarrow> string" where
  "string_of_rune n =
     (if n < 0x80 then [char_of n]
      else if n < 0x800 then [char_of (0xC0 + n div 64), char_of (0x80 + n mod 64)]
      else if 0xD800 \<le> n \<and> n \<le> 0xDFFF then [CHR 0xEF, CHR 0xBF, CHR 0xBD]
      else if n < 0x10000 then
        [char_of (0xE0 + n div 4096), char_of (0x80 + (n div 64) mod 64), char_of (0x80 + n mod 64)]
      else if n \<le> 0x10FFFF then
        [char_of (0xF0 + n div 262144), char_of (0x80 + (n div 4096) mod 64),
         char_of (0x80 + (n div 64) mod 64), char_of (0x80 + n mod 64)]
      else [CHR 0xEF, CHR 0xBF, CHR 0xBD])"

section \<open>The model package\<close>

datatype ResultType = ResultTypePass | ResultTypeReview | ResultTypeReject | ResultTypeWarning

datatype RiskType =
    RiskTypeUnknown | RiskTypeSensitiveWord | RiskTypeSpam | RiskTypeHarassment
  | RiskTypeHateSpeech | RiskTypeViolence | RiskTypeAdult | RiskTypeContextViolation
  | RiskTypeSuspiciousBehavior

text \<open>
  The error values of the service, and \<open>Errorf\<close> for an error made by \<open>fmt.Errorf\<close>,
  with the constant part of its message.
\<close>

datatype error =
    ErrEmptyContent | ErrInvalidRequest | ErrRuleNotFound | ErrInternalServer
  | Errorf string

record ContextItem =
  ci_Content :: string
  ci_UserID :: string
  ci_Timestamp :: int
  ci_ContentID :: string

record CheckContext =
  Content :: string
  UserID :: string
  Scene :: string
  ContextItems :: "ContextItem list"
  ExtraData :: "(string \<times> string) list"

text \<open>
  Scores are \<open>float32\<close> in the source. They are taken as the real numbers they denote;
  the source compares them, and multiplies the threshold by the constants 0.7 and 0.5.
\<close>

record RiskItem =
  Type :: RiskType
  Score :: real
  Description :: string
  Details :: "(string \<times> string) list"

record CheckResult =
  Result :: ResultType
  RiskScore :: real
  Risks :: "RiskItem list"
  RequestID :: string
  Suggestion :: string
  CostTime :: int
  Extra :: "(string \<times> string) list"

section \<open>HarassmentDetector\<close>

definition harassmentKeywords :: "string list" where
  "harassmentKeywords =
     [[CHR 0xE9, CHR 0xAA, CHR 0x9A, CHR 0xE6, CHR 0x89, CHR 0xB0] \<comment> \<open>U+9A9A U+6270\<close>,
      [CHR 0xE5, CHR 0xA8, CHR 0x81, CHR 0xE8, CHR 0x83, CHR 0x81] \<comment> \<open>U+5A01 U+80C1\<close>,
      [CHR 0xE6, CHR 0xAC, CHR 0xBA, CHR 0xE5, CHR 0x87, CHR 0x8C] \<comment> \<open>U+6B3A U+51CC\<close>,
      [CHR 0xE6, CHR 0x94, CHR 0xBB, CHR 0xE5, CHR 0x87, CHR 0xBB] \<comment> \<open>U+653B U+51FB\<close>,
      [CHR 0xE4, CHR 0xBA, CHR 0xBA, CHR 0xE8, CHR 0xBA, CHR 0xAB,
       CHR 0xE6, CHR 0x94, CHR 0xBB, CHR 0xE5, CHR 0x87, CHR 0xBB] \<comment> \<open>U+4EBA U+8EAB U+653B U+51FB\<close>,
      [CHR 0xE4, CHR 0xBE, CHR 0xAE, CHR 0xE8, CHR 0xBE, CHR 0xB1] \<comment> \<open>U+4FAE U+8FB1\<close>,
      [CHR 0xE6, CHR 0xAD, CHR 0xA7, CHR 0xE8, CHR 0xA7, CHR 0x86] \<comment> \<open>U+6B67 U+89C6\<close>,
      [CHR 0xE6, CHR 0x80, CHR 0xA7, CHR 0xE9, CHR 0xAA, CHR 0x9A,
       CHR 0xE6, CHR 0x89, CHR 0xB0] \<comment> \<open>U+6027 U+9A9A U+6270\<close>,
      [CHR 0xE8, CHR 0xB7, CHR 0x9F, CHR 0xE8, CHR 0xB8, CHR 0xAA] \<comment> \<open>U+8DDF U+8E2A\<close>,
      [CHR 0xE6, CHR 0x81, CHR 0x90, CHR 0xE5, CHR 0x90, CHR 0x93] \<comment> \<open>U+6050 U+5413\<close>,
      [CHR 0xE9, CHR 0x9C, CHR 0xB8, CHR 0xE5, CHR 0x87, CHR 0x8C] \<comment> \<open>U+9738 U+51CC\<close>,
      [CHR 0xE9, CHR 0xBB, CHR 0x91, CHR 0xE6, CHR 0x96, CHR 0x99] \<comment> \<open>U+9ED1 U+6599\<close>,
      [CHR 0xE9, CHR 0x9A, CHR 0x90, CHR 0xE7, CHR 0xA7, CHR 0x81] \<comment> \<open>U+9690 U+79C1\<close>,
      [CHR 0xE7, CHR 0xA7, CHR 0x81, CHR 0xE4, CHR 0xBA, CHR 0xBA,
       CHR 0xE4, CHR 0xBF, CHR 0xA1, CHR 0xE6, CHR 0x81, CHR 0xAF] \<comment> \<open>U+79C1 U+4EBA U+4FE1 U+606F\<close>]"

definition repeatMessageThreshold :: nat where
  "repeatMessageThreshold = 3"

definition countSameUserRepeatMessages :: "CheckContext \<Rightarrow> nat" where
  "countSameUserRepeatMessages ctx =
     (if ContextItems ctx = [] then 0
      else length (filter (\<lambda>item. ci_UserID item = UserID ctx) (ContextItems ctx)) + 1)"

text \<open>
  \<open>isTargetingUser\<close> counts, per other user, the context items of that user and returns the
  first user of the map \<open>targetCounts\<close> with two or more. Go enumerates a map in an
  unspecified order; here the users are enumerated in the order of their first item. Whether
  a user is found does not depend on the order, only which one is reported.
\<close>

definition isTargetingUser :: "CheckContext \<Rightarrow> bool \<times> string" where
  "isTargetingUser ctx =
     (if length (ContextItems ctx) < 2 then (False, [])
      else
        let others = filter (\<lambda>u. u \<noteq> UserID ctx) (map ci_UserID (ContextItems ctx))
        in case find (\<lambda>u. 2 \<le> count_list others u) (remdups others) of
             Some targetUserID \<Rightarrow> (True, targetUserID)
           | None \<Rightarrow> (False, []))"

definition HarassmentDetector_Detect :: "CheckContext \<Rightarrow> error + RiskItem list" where
  "HarassmentDetector_Detect ctx =
     (if Content ctx = [] then Inr []
      else
        let content = ToLower (Content ctx);
            risks1 =
              (case find (\<lambda>keyword. Contains content keyword) harassmentKeywords of
                 Some keyword \<Rightarrow>
                   [\<lparr>Type = RiskTypeHarassment, Score = 70,
                     Description = [CHR 0xE5, CHR 0x86, CHR 0x85, CHR 0xE5, CHR 0xAE, CHR 0xB9,
                                    CHR 0xE5, CHR 0x8C, CHR 0x85, CHR 0xE5, CHR 0x90, CHR 0xAB,
                                    CHR 0xE9, CHR 0xAA, CHR 0x9A, CHR 0xE6, CHR 0x89, CHR 0xB0,
                                    CHR 0xE7, CHR 0x9B, CHR 0xB8, CHR 0xE5, CHR 0x85, CHR 0xB3,
                                    CHR 0xE5, CHR 0x85, CHR 0xB3, CHR 0xE9, CHR 0x94, CHR 0xAE,
                                    CHR 0xE8, CHR 0xAF, CHR 0x8D],
                     Details = [(''keyword'', keyword)]\<rparr>]
               | None \<Rightarrow> []);
            risks2 =
              (if ContextItems ctx \<noteq> [] \<and>
                  repeatMessageThreshold \<le> countSameUserRepeatMessages ctx
               then [\<lparr>Type = RiskTypeHarassment, Score = 65,
                      Description = [CHR 0xE6, CHR 0xA3, CHR 0x80, CHR 0xE6, CHR 0xB5, CHR 0x8B,
                                     CHR 0xE5, CHR 0x88, CHR 0xB0, CHR 0xE9, CHR 0x87, CHR 0x8D,
                                     CHR 0xE5, CHR 0xA4, CHR 0x8D, CHR 0xE5, CHR 0x8F, CHR 0x91,
                                     CHR 0xE9, CHR 0x80, CHR 0x81, CHR 0xE6, CHR 0xB6, CHR 0x88,
                                     CHR 0xE6, CHR 0x81, CHR 0xAF, CHR 0xE7, CHR 0x9A, CHR 0x84,
                                     CHR 0xE9, CHR 0xAA, CHR 0x9A, CHR 0xE6, CHR 0x89, CHR 0xB0,
                                     CHR 0xE6, CHR 0xA8, CHR 0xA1, CHR 0xE5, CHR 0xBC, CHR 0x8F],
                      Details = [(''repeat_count'',
                                  string_of_rune (countSameUserRepeatMessages ctx))]\<rparr>]
               else []);
            risks3 =
              (if ContextItems ctx \<noteq> [] \<and> fst (isTargetingUser ctx)
               then [\<lparr>Type = RiskTypeHarassment, Score = 60,
                      Description = [CHR 0xE6, CHR 0xA3, CHR 0x80, CHR 0xE6, CHR 0xB5, CHR 0x8B,
                                     CHR 0xE5, CHR 0x88, CHR 0xB0, CHR 0xE9, CHR 0x92, CHR 0x88,
                                     CHR 0xE5, CHR 0xAF, CHR 0xB9, CHR 0xE7, CHR 0x89, CHR 0xB9,
                                     CHR 0xE5, CHR 0xAE, CHR 0x9A, CHR 0xE7, CHR 0x94, CHR 0xA8,
                                     CHR 0xE6, CHR 0x88, CHR 0xB7, CHR 0xE7, CHR 0x9A, CHR 0x84,
                                     CHR 0xE9, CHR 0xA2, CHR 0x91, CHR 0xE7, CHR 0xB9, CHR 0x81,
                                     CHR 0xE6, CHR 0xB6, CHR 0x88, CHR 0xE6, CHR 0x81, CHR 0xAF],
                      Details = [(''target_user'', snd (isTargetingUser ctx))]\<rparr>]
               else [])
        in Inr (risks1 @ risks2 @ risks3))"

section \<open>The remote detectors\<close>

subsection \<open>NLPDetector and SemanticNLPDetector\<close>

text \<open>
  Both detectors keep a flag \<open>fallbackMode\<close>. The remote service is a parameter: the
  function \<open>analyze\<close> gives what \<open>analyzeContent\<close> returns for a content and its
  context when the request is sent. Each \<open>Detect\<close> returns its risks, the detector
  afterwards, and the list of the requests it has sent.
  Apart from the transport inside \<open>analyzeContent\<close> and \<open>testConnection\<close>, the two
  source files have the same text for \<open>Detect\<close>, \<open>fallbackDetect\<close>, \<open>containsRejection\<close>,
  \<open>hasContextualRisk\<close>, \<open>getIntentRiskType\<close> and \<open>getIntentDescription\<close>; the helper
  functions are written once.
\<close>

record AnalysisResult =
  IsToxic :: bool
  Categories :: "(string \<times> real) list"
  Explanation :: string
  Intent :: string
  Sentiment :: string
  Risk :: real

record NLPDetector =
  threshold :: real
  contextSize :: int
  fallbackMode :: bool

type_synonym analyze_service = "string \<Rightarrow> string list \<Rightarrow> error + AnalysisResult"

type_synonym request_log = "(string \<times> string list) list"

definition NewRiskItem :: "RiskType \<Rightarrow> real \<Rightarrow> string \<Rightarrow> RiskItem" where
  "NewRiskItem riskType score description =
     \<lparr>Type = riskType, Score = score, Description = description, Details = []\<rparr>"

definition harmfulWords :: "string list" where
  "harmfulWords =
     [[CHR 0xE5, CHR 0x82, CHR 0xBB, CHR 0xE9, CHR 0x80, CHR 0xBC] \<comment> \<open>U+50BB U+903C\<close>,
      [CHR 0xE6, CHR 0xB7, CHR 0xB7, CHR 0xE8, CHR 0x9B, CHR 0x8B] \<comment> \<open>U+6DF7 U+86CB\<close>,
      [CHR 0xE5, CHR 0x9E, CHR 0x83, CHR 0xE5, CHR 0x9C, CHR 0xBE] \<comment> \<open>U+5783 U+573E\<close>,
      [CHR 0xE7, CHR 0x99, CHR 0xBD, CHR 0xE7, CHR 0x97, CHR 0xB4] \<comment> \<open>U+767D U+75F4\<close>,
      [CHR 0xE5, CHR 0xBA, CHR 0x9F, CHR 0xE7, CHR 0x89, CHR 0xA9] \<comment> \<open>U+5E9F U+7269\<close>,
      [CHR 0xE8, CHR 0xB4, CHR 0xB1, CHR 0xE4, CHR 0xBA, CHR 0xBA] \<comment> \<open>U+8D31 U+4EBA\<close>,
      [CHR 0xE5, CHR 0x8E, CHR 0xBB, CHR 0xE6, CHR 0xAD, CHR 0xBB] \<comment> \<open>U+53BB U+6B7B\<close>,
      [CHR 0xE6, CHR 0x9D, CHR 0x80, CHR 0xE4, CHR 0xBA, CHR 0x86,
       CHR 0xE4, CHR 0xBD, CHR 0xA0] \<comment> \<open>U+6740 U+4E86 U+4F60\<close>,
      [CHR 0xE6, CHR 0x89, CHR 0x93, CHR 0xE6, CHR 0xAD, CHR 0xBB,
       CHR 0xE4, CHR 0xBD, CHR 0xA0] \<comment> \<open>U+6253 U+6B7B U+4F60\<close>,
      [CHR 0xE7, CHR 0x81, CHR 0xAD, CHR 0xE4, CHR 0xBA, CHR 0x86,
       CHR 0xE4, CHR 0xBD, CHR 0xA0] \<comment> \<open>U+706D U+4E86 U+4F60\<close>,
      [CHR 0xE5, CHR 0xBC, CHR 0x84, CHR 0xE6, CHR 0xAD, CHR 0xBB,
       CHR 0xE4, CHR 0xBD, CHR 0xA0] \<comment> \<open>U+5F04 U+6B7B U+4F60\<close>]"

definition threatPatterns :: "string list" where
  "threatPatterns =
     [[CHR 0xE5, CHR 0xB0, CHR 0x8F, CHR 0xE5, CHR 0xBF, CHR 0x83] \<comment> \<open>U+5C0F U+5FC3\<close>,
      [CHR 0xE5, CHR 0xBD, CHR 0x93, CHR 0xE5, CHR 0xBF, CHR 0x83] \<comment> \<open>U+5F53 U+5FC3\<close>,
      [CHR 0xE5, CHR 0xA8, CHR 0x81, CHR 0xE8, CHR 0x83, CHR 0x81] \<comment> \<open>U+5A01 U+80C1\<close>,
      [CHR 0xE5, CHR 0x90, CHR 0x8E, CHR 0xE6, CHR 0x9E, CHR 0x9C] \<comment> \<open>U+540E U+679C\<close>,
      [CHR 0xE6, CHR 0x89, CHR 0xBE, CHR 0xE4, CHR 0xBD, CHR 0xA0] \<comment> \<open>U+627E U+4F60\<close>,
      [CHR 0xE6, CHR 0x8A, CHR 0xA5, CHR 0xE5, CHR 0xA4, CHR 0x8D] \<comment> \<open>U+62A5 U+590D\<close>]"

definition rejectionWords :: "string list" where
  "rejectionWords =
     [[CHR 0xE4, CHR 0xB8, CHR 0x8D, CHR 0xE8, CHR 0xA6, CHR 0x81] \<comment> \<open>U+4E0D U+8981\<close>,
      [CHR 0xE5, CHR 0x88, CHR 0xAB] \<comment> \<open>U+522B\<close>,
      [CHR 0xE5, CHR 0x81, CHR 0x9C, CHR 0xE6, CHR 0xAD, CHR 0xA2] \<comment> \<open>U+505C U+6B62\<close>,
      [CHR 0xE5, CHR 0x88, CHR 0xAB, CHR 0xE5, CHR 0x86, CHR 0x8D] \<comment> \<open>U+522B U+518D\<close>,
      [CHR 0xE4, CHR 0xB8, CHR 0x8D, CHR 0xE6, CHR 0x83, CHR 0xB3] \<comment> \<open>U+4E0D U+60F3\<close>,
      [CHR 0xE6, CHR 0x8B, CHR 0x92, CHR 0xE7, CHR 0xBB, CHR 0x9D] \<comment> \<open>U+62D2 U+7EDD\<close>,
      [CHR 0xE5, CHR 0x88, CHR 0xAB, CHR 0xE6, CHR 0x9D, CHR 0xA5] \<comment> \<open>U+522B U+6765\<close>,
      [CHR 0xE8, CHR 0xAE, CHR 0xA8, CHR 0xE5, CHR 0x8E, CHR 0x8C] \<comment> \<open>U+8BA8 U+538C\<close>,
      [CHR 0xE7, CHR 0x83, CHR 0xA6, CHR 0xE4, CHR 0xBA, CHR 0xBA] \<comment> \<open>U+70E6 U+4EBA\<close>,
      [CHR 0xE9, CHR 0xAA, CHR 0x9A, CHR 0xE6, CHR 0x89, CHR 0xB0] \<comment> \<open>U+9A9A U+6270\<close>,
      [CHR 0xE5, CHR 0x88, CHR 0xAB, CHR 0xE5, CHR 0x8F, CHR 0x91] \<comment> \<open>U+522B U+53D1\<close>]"

definition containsRejection :: "string \<Rightarrow> bool" where
  "containsRejection text = list_ex (\<lambda>word. Contains text word) rejectionWords"

definition hasContextualRisk :: "AnalysisResult \<Rightarrow> string list \<Rightarrow> bool" where
  "hasContextualRisk result contextItems = list_ex containsRejection contextItems"

definition getIntentRiskType :: "string \<Rightarrow> RiskType" where
  "getIntentRiskType intent =
     (if intent = ''harmful'' then RiskTypeHarassment else RiskTypeUnknown)"

definition getIntentDescription :: "string \<Rightarrow> string" where
  "getIntentDescription intent =
     (if intent = ''harmful''
      then [CHR 0xE6, CHR 0x9C, CHR 0x89, CHR 0xE5, CHR 0xAE, CHR 0xB3] \<comment> \<open>U+6709 U+5BB3\<close>
      else intent)"

definition fallbackDetect :: "CheckContext \<Rightarrow> error + RiskItem list" where
  "fallbackDetect ctx =
     (let content = Content ctx;
          risks1 =
            (case find (\<lambda>word. Contains content word) harmfulWords of
               Some word \<Rightarrow>
                 [NewRiskItem RiskTypeHarassment 80
                    ([CHR 0xE6, CHR 0xA3, CHR 0x80, CHR 0xE6, CHR 0xB5, CHR 0x8B,
                      CHR 0xE5, CHR 0x88, CHR 0xB0, CHR 0xE6, CHR 0x95, CHR 0x8F,
                      CHR 0xE6, CHR 0x84, CHR 0x9F, CHR 0xE8, CHR 0xAF, CHR 0x8D,
                      CHR 0x3A, CHR 0x20] @
                     word)]
             | None \<Rightarrow> []);
          risks2 =
            (if list_ex (\<lambda>pattern. Contains content pattern) threatPatterns
             then [NewRiskItem RiskTypeHarassment 75 [CHR 0xE6, CHR 0xA3, CHR 0x80, CHR 0xE6,
                                                      CHR 0xB5, CHR 0x8B, CHR 0xE5, CHR 0x88,
                                                      CHR 0xB0, CHR 0xE6, CHR 0xBD, CHR 0x9C,
                                                      CHR 0xE5, CHR 0x9C, CHR 0xA8, CHR 0xE5,
                                                      CHR 0xA8, CHR 0x81, CHR 0xE8, CHR 0x83,
                                                      CHR 0x81, CHR 0xE6, CHR 0x80, CHR 0xA7,
                                                      CHR 0xE8, CHR 0xAF, CHR 0xAD, CHR 0xE8,
                                                      CHR 0xA8, CHR 0x80]]
             else []);
          hasRejection =
            list_ex (\<lambda>item. ci_UserID item \<noteq> UserID ctx \<and> containsRejection (ci_Content item))
              (ContextItems ctx);
          risks3 =
            (if ContextItems ctx \<noteq> [] \<and> hasRejection
             then [NewRiskItem RiskTypeContextViolation 70
                     [CHR 0xE6, CHR 0xA3, CHR 0x80, CHR 0xE6, CHR 0xB5, CHR 0x8B,
                      CHR 0xE5, CHR 0x88, CHR 0xB0, CHR 0xE5, CHR 0x8F, CHR 0xAF,
                      CHR 0xE8, CHR 0x83, CHR 0xBD, CHR 0xE5, CHR 0x9C, CHR 0xA8,
                      CHR 0xE5, CHR 0xAF, CHR 0xB9, CHR 0xE6, CHR 0x96, CHR 0xB9,
                      CHR 0xE6, CHR 0x8B, CHR 0x92, CHR 0xE7, CHR 0xBB, CHR 0x9D,
                      CHR 0xE5, CHR 0x90, CHR 0x8E, CHR 0xE7, CHR 0xBB, CHR 0xA7,
                      CHR 0xE7, CHR 0xBB, CHR 0xAD, CHR 0xE5, CHR 0x8F, CHR 0x91,
                      CHR 0xE9, CHR 0x80, CHR 0x81, CHR 0xE6, CHR 0xB6, CHR 0x88,
                      CHR 0xE6, CHR 0x81, CHR 0xAF]]
             else [])
      in Inr (risks1 @ risks2 @ risks3))"

text \<open>
  The risks of a remote analysis that came back. \<open>sprintf_2f\<close> stands for
  \<open>fmt.Sprintf("%.2f", _)\<close>.
\<close>

definition analysisRisks ::
  "(real \<Rightarrow> string) \<Rightarrow> real \<Rightarrow> AnalysisResult \<Rightarrow> string list \<Rightarrow> RiskItem list" where
  "analysisRisks sprintf_2f thr result contextContent =
     (let risks1 =
            (if IsToxic result \<and> Risk result > thr
             then [(NewRiskItem RiskTypeHarassment (Risk result * 100) (Explanation result))
                     \<lparr>Details :=
                        map (\<lambda>(category, score). (category, sprintf_2f score))
                          (filter (\<lambda>(category, score). score > thr) (Categories result))\<rparr>]
             else []);
          risks2 =
            (if Intent result \<noteq> [] \<and> Intent result \<noteq> ''neutral'' \<and> Risk result > thr
             then [NewRiskItem (getIntentRiskType (Intent result)) (Risk result * 80)
                     ([CHR 0xE6, CHR 0xA3, CHR 0x80, CHR 0xE6, CHR 0xB5, CHR 0x8B,
                       CHR 0xE5, CHR 0x88, CHR 0xB0] \<comment> \<open>U+68C0 U+6D4B U+5230\<close> @
                      getIntentDescription (Intent result) @
                      [CHR 0xE6, CHR 0x84, CHR 0x8F, CHR 0xE5, CHR 0x9B, CHR 0xBE] \<comment> \<open>U+610F U+56FE\<close>)]
             else []);
          risks3 =
            (if contextContent \<noteq> [] \<and> hasContextualRisk result contextContent
             then [NewRiskItem RiskTypeContextViolation (Risk result * 90)
                     [CHR 0xE6, CHR 0xA3, CHR 0x80, CHR 0xE6, CHR 0xB5, CHR 0x8B,
                      CHR 0xE5, CHR 0x88, CHR 0xB0, CHR 0xE4, CHR 0xB8, CHR 0x8A,
                      CHR 0xE4, CHR 0xB8, CHR 0x8B, CHR 0xE6, CHR 0x96, CHR 0x87,
                      CHR 0xE7, CHR 0x9B, CHR 0xB8, CHR 0xE5, CHR 0x85, CHR 0xB3,
                      CHR 0xE7, CHR 0x9A, CHR 0x84, CHR 0xE9, CHR 0xA3, CHR 0x8E,
                      CHR 0xE9, CHR 0x99, CHR 0xA9, CHR 0xE8, CHR 0xA1, CHR 0x8C,
                      CHR 0xE4, CHR 0xB8, CHR 0xBA]]
             else [])
      in risks1 @ risks2 @ risks3)"

definition NLPDetector_Detect ::
  "(real \<Rightarrow> string) \<Rightarrow> analyze_service \<Rightarrow> NLPDetector \<Rightarrow> CheckContext
     \<Rightarrow> (error + RiskItem list) \<times> NLPDetector \<times> request_log" where
  "NLPDetector_Detect sprintf_2f analyze d ctx =
     (if fallbackMode d then (fallbackDetect ctx, d, [])
      else
        let userContent = Content ctx;
            contextContent = map ci_Content (ContextItems ctx)
        in case analyze userContent contextContent of
             Inl err \<Rightarrow>
               (fallbackDetect ctx, d\<lparr>fallbackMode := True\<rparr>, [(userContent, contextContent)])
           | Inr result \<Rightarrow>
               (Inr (analysisRisks sprintf_2f (threshold d) result contextContent), d,
                [(userContent, contextContent)]))"






subsection \<open>AIDetector\<close>

text \<open>
  \<open>AIDetector\<close> has no fallback flag and no probe. The service is the parameter \<open>send\<close>:
  for a request body, either the transport error of \<open>client.Do\<close> or the status code and the
  decoded body (\<open>None\<close> when the body does not decode). \<open>url_ok\<close> says whether
  \<open>http.NewRequest\<close> accepts the URL.
\<close>

record AIDetector =
  url :: string
  apiKey :: string
  url_ok :: bool







definition NewAIDetector :: "string \<Rightarrow> string \<Rightarrow> bool \<Rightarrow> error + AIDetector" where
  "NewAIDetector u key ok =
     (if u = [] then Inl (Errorf ''AI service URL cannot be empty'')
      else Inr \<lparr>url = u, apiKey = key, url_ok = ok\<rparr>)"


section \<open>RuleEngine\<close>

datatype cfg_value = CfgString string | CfgOther

record Rule =
  ID :: string
  Name :: string
  rule_Description :: string
  Enabled :: bool
  Priority :: int
  Action :: string
  rule_Score :: real
  rule_Config :: "string \<rightharpoonup> cfg_value"

record RuleEngineResult =
  er_Result :: ResultType
  er_Score :: real
  er_Risks :: "RiskItem list"
  er_Suggestion :: string
  HasExplicitResult :: bool

text \<open>
  \<open>Rules\<close> is the map from rule id to rule of the rule set, given as the list of its rules in
  the order in which \<open>range\<close> enumerates them in \<open>sortRulesByPriority\<close>; Go leaves that order
  open, and the theorems hold for every list.
\<close>

record RuleEngine =
  Rules :: "Rule list"
  initialized :: bool

definition getActionType :: "string \<Rightarrow> ResultType" where
  "getActionType action =
     (if action = ''block'' then ResultTypeReject
      else if action = ''review'' then ResultTypeReview
      else if action = ''mark'' then ResultTypeWarning
      else ResultTypePass)"

definition getRiskTypeFromCategory :: "string \<Rightarrow> RiskType" where
  "getRiskTypeFromCategory category =
     (if category = ''sensitive'' then RiskTypeSensitiveWord
      else if category = ''spam'' then RiskTypeSpam
      else if category = ''harassment'' then RiskTypeHarassment
      else if category = ''hate_speech'' then RiskTypeHateSpeech
      else if category = ''violence'' then RiskTypeViolence
      else if category = ''adult'' then RiskTypeAdult
      else RiskTypeUnknown)"

definition RuleEngine_generateSuggestion :: "Rule \<Rightarrow> string" where
  "RuleEngine_generateSuggestion rule =
     [CHR 0xE5, CHR 0x86, CHR 0x85, CHR 0xE5, CHR 0xAE, CHR 0xB9,
      CHR 0xE8, CHR 0xBF, CHR 0x9D, CHR 0xE5, CHR 0x8F, CHR 0x8D,
      CHR 0xE4, CHR 0xBA, CHR 0x86, CHR 0x22] @
     Name rule @
     [CHR 0x22, CHR 0xE8, CHR 0xA7, CHR 0x84, CHR 0xE5, CHR 0x88,
      CHR 0x99, CHR 0xEF, CHR 0xBC, CHR 0x8C, CHR 0xE5, CHR 0x8E,
      CHR 0x9F, CHR 0xE5, CHR 0x9B, CHR 0xA0, CHR 0xEF, CHR 0xBC,
      CHR 0x9A] @
     rule_Description rule"

text \<open>
  \<open>evaluateRule\<close>: every branch of the \<open>switch\<close> either returns \<open>false, nil\<close> or falls
  through to the \<open>return false, nil\<close> that ends the function.
\<close>

definition evaluateRule ::
  "Rule \<Rightarrow> CheckContext \<Rightarrow> (RiskType \<Rightarrow> bool) \<Rightarrow> bool \<times> RiskItem option" where
  "evaluateRule rule ctx existingRiskTypes =
     (if ID rule = ''sensitive_words'' then
        (case rule_Config rule ''category'' of
           Some (CfgString categoryStr) \<Rightarrow>
             (if existingRiskTypes (getRiskTypeFromCategory categoryStr) then (False, None)
              else (False, None))
         | _ \<Rightarrow> (False, None))
      else if ID rule = ''spam_detection'' then
        (if existingRiskTypes RiskTypeSpam then (False, None) else (False, None))
      else if ID rule = ''context_analysis'' then
        (if ContextItems ctx = [] then (False, None)
         else if existingRiskTypes RiskTypeContextViolation then (False, None)
         else (False, None))
      else if ID rule = ''user_reputation'' then
        (if existingRiskTypes RiskTypeSuspiciousBehavior then (False, None) else (False, None))
      else (False, None))"

text \<open>
  \<open>sortRulesByPriority\<close>: the two nested loops that exchange \<open>rules[i]\<close> and \<open>rules[j]\<close>
  when the first has the smaller priority. \<open>n\<close> is \<open>len(rules)\<close>, which the loops do not
  change.
\<close>

function sort_inner :: "nat \<Rightarrow> nat \<Rightarrow> Rule list \<Rightarrow> Rule list" where
  "sort_inner i j rules =
     (if j < length rules then
        sort_inner i (Suc j)
          (if Priority (rules ! i) < Priority (rules ! j)
           then rules[i := rules ! j, j := rules ! i] else rules)
      else rules)"
  by pat_completeness auto
termination
  by (relation "measure (\<lambda>(i, j, rules). length rules - j)") auto

function sort_outer :: "nat \<Rightarrow> nat \<Rightarrow> Rule list \<Rightarrow> Rule list" where
  "sort_outer n i rules =
     (if Suc i < n then sort_outer n (Suc i) (sort_inner i (Suc i) rules) else rules)"
  by pat_completeness auto
termination
  by (relation "measure (\<lambda>(n, i, rules). n - i)") auto

definition sortRulesByPriority :: "RuleEngine \<Rightarrow> Rule list" where
  "sortRulesByPriority e = sort_outer (length (Rules e)) 0 (Rules e)"

text \<open>
  The loop of \<open>Evaluate\<close> over the sorted rules, with the rule evaluation \<open>ev\<close> as a
  parameter; \<open>Evaluate\<close> runs it with \<open>evaluateRule\<close>. The arguments \<open>risks\<close>,
  \<open>highestScore\<close> and \<open>highestScoreResult\<close> are the variables of the loop.
\<close>

fun evaluateRules ::
  "(Rule \<Rightarrow> bool \<times> RiskItem option) \<Rightarrow> Rule list \<Rightarrow> RiskItem list \<Rightarrow> real \<Rightarrow> ResultType
     \<Rightarrow> RuleEngineResult" where
  "evaluateRules ev [] risks highestScore highestScoreResult =
     \<lparr>er_Result = (if highestScore > 0 then highestScoreResult else ResultTypePass),
      er_Score = highestScore, er_Risks = risks, er_Suggestion = [],
      HasExplicitResult = (highestScore > 0)\<rparr>"
| "evaluateRules ev (rule # rest) risks highestScore highestScoreResult =
     (if \<not> Enabled rule then evaluateRules ev rest risks highestScore highestScoreResult
      else if fst (ev rule) then
        (if getActionType (Action rule) = ResultTypeReject then
           \<lparr>er_Result = ResultTypeReject, er_Score = rule_Score rule,
            er_Risks = risks @ (case snd (ev rule) of Some riskItem \<Rightarrow> [riskItem] | None \<Rightarrow> []),
            er_Suggestion = RuleEngine_generateSuggestion rule,
            HasExplicitResult = True\<rparr>
         else
           evaluateRules ev rest
             (risks @ (case snd (ev rule) of Some riskItem \<Rightarrow> [riskItem] | None \<Rightarrow> []))
             (if rule_Score rule > highestScore then rule_Score rule else highestScore)
             (if rule_Score rule > highestScore then getActionType (Action rule)
              else highestScoreResult))
      else evaluateRules ev rest risks highestScore highestScoreResult)"

definition EvaluateWith ::
  "(Rule \<Rightarrow> bool \<times> RiskItem option) \<Rightarrow> RuleEngine \<Rightarrow> error + RuleEngineResult" where
  "EvaluateWith ev e =
     (if \<not> initialized e then Inl (Errorf ''rule engine not initialized'')
      else Inr (evaluateRules ev (sortRulesByPriority e) [] 0 ResultTypePass))"

definition Evaluate ::
  "RuleEngine \<Rightarrow> CheckContext \<Rightarrow> RiskItem list \<Rightarrow> error + RuleEngineResult" where
  "Evaluate e ctx existingRisks =
     EvaluateWith (\<lambda>rule. evaluateRule rule ctx (\<lambda>t. t \<in> set (map Type existingRisks))) e"

section \<open>ContentCheckService\<close>

record ContentCheckConfig =
  RiskScoreThreshold :: int
  CacheTTL :: int
  BatchCheckMaxSize :: int

text \<open>
  What the Go runtime and its libraries compute: \<open>fmt.Sprintf("%.2f", _)\<close> and the
  hexadecimal MD5 digest of \<open>HashString\<close>.
\<close>

record runtime =
  sprintf_2f :: "real \<Rightarrow> string"
  HashString :: "string \<Rightarrow> string"

text \<open>The verb \<open>%d\<close> of \<open>fmt.Sprintf\<close>: the decimal digits, after a minus sign below zero.\<close>

fun decimal :: "nat \<Rightarrow> string" where
  "decimal n = (if 10 \<le> n then decimal (n div 10) else []) @ [''0123456789'' ! (n mod 10)]"

definition format_d :: "int \<Rightarrow> string" where
  "format_d i = (if 0 \<le> i then decimal (nat i) else CHR ''-'' # decimal (nat (- i)))"

text \<open>
  A detector, as the pipeline sees it during one call: the function from the context to what
  its \<open>Detect\<close> returns in that call. \<open>detectors\<close> is a Go map from names to detectors; the
  pipeline gets its entries as a list, in the order in which \<open>range\<close> enumerates them in
  that call.
\<close>

type_synonym detector = "CheckContext \<Rightarrow> error + RiskItem list"

definition addRisk :: "RiskItem list \<times> real \<times> real \<Rightarrow> RiskItem \<Rightarrow> RiskItem list \<times> real \<times> real" where
  "addRisk acc risk =
     (case acc of (allRisks, totalScore, maxScore) \<Rightarrow>
        (allRisks @ [risk], totalScore + Score risk,
         if Score risk > maxScore then Score risk else maxScore))"


definition NLPDetector_detector :: "runtime \<Rightarrow> analyze_service \<Rightarrow> NLPDetector \<Rightarrow> detector" where
  "NLPDetector_detector rt analyze d checkCtx =
     fst (NLPDetector_Detect (sprintf_2f rt) analyze d checkCtx)"


text \<open>
  The risk items that the detectors return in a call, in the order in which they run; a
  detector that fails gives none.
\<close>

definition detectedRisks :: "(string \<times> detector) list \<Rightarrow> CheckContext \<Rightarrow> RiskItem list" where
  "detectedRisks detectors checkCtx =
     concat (map (\<lambda>(name, detector).
                    case detector checkCtx of Inl err \<Rightarrow> [] | Inr risks \<Rightarrow> risks)
               detectors)"

fun runDetectors ::
  "(string \<times> detector) list \<Rightarrow> CheckContext \<Rightarrow> RiskItem list \<times> real \<times> real
     \<Rightarrow> RiskItem list \<times> real \<times> real" where
  "runDetectors [] checkCtx acc = acc"
| "runDetectors ((name, detector) # rest) checkCtx acc =
     (case detector checkCtx of
        Inl err \<Rightarrow> runDetectors rest checkCtx acc
      | Inr risks \<Rightarrow> runDetectors rest checkCtx (foldl addRisk acc risks))"

text \<open>
  One round of the merge loop: the first item of \<open>allRisks\<close> with the type of \<open>risk\<close> gets
  the score and the description of \<open>risk\<close> when \<open>risk\<close> scores higher; \<open>risk\<close> is appended
  when no item has its type.
\<close>

fun mergeRisk :: "RiskItem \<Rightarrow> RiskItem list \<Rightarrow> RiskItem list" where
  "mergeRisk risk [] = [risk]"
| "mergeRisk risk (existing # rest) =
     (if Type existing = Type risk then
        (if Score risk > Score existing
         then existing\<lparr>Score := Score risk, Description := Description risk\<rparr>
         else existing) # rest
      else existing # mergeRisk risk rest)"

definition mergeEngineRisk :: "RiskItem list \<times> real \<Rightarrow> RiskItem \<Rightarrow> RiskItem list \<times> real" where
  "mergeEngineRisk acc risk =
     (case acc of (allRisks, maxScore) \<Rightarrow>
        (mergeRisk risk allRisks, if Score risk > maxScore then Score risk else maxScore))"

definition generateSuggestion :: "ResultType \<Rightarrow> RiskItem list \<Rightarrow> string" where
  "generateSuggestion result risks =
     (case result of
        ResultTypeReject \<Rightarrow>
          (case risks of
             first # _ \<Rightarrow> [CHR 0xE5, CHR 0x86, CHR 0x85, CHR 0xE5, CHR 0xAE, CHR 0xB9,
                                      CHR 0xE5, CHR 0x8C, CHR 0x85, CHR 0xE5, CHR 0x90, CHR 0xAB,
                                      CHR 0xE8, CHR 0xBF, CHR 0x9D, CHR 0xE8, CHR 0xA7, CHR 0x84,
                                      CHR 0xE4, CHR 0xBF, CHR 0xA1, CHR 0xE6, CHR 0x81, CHR 0xAF,
                                      CHR 0xEF, CHR 0xBC, CHR 0x8C, CHR 0xE5, CHR 0x8E, CHR 0x9F,
                                      CHR 0xE5, CHR 0x9B, CHR 0xA0, CHR 0xEF, CHR 0xBC, CHR 0x9A] @ Description first
           | [] \<Rightarrow> [CHR 0xE5, CHR 0x86, CHR 0x85, CHR 0xE5, CHR 0xAE, CHR 0xB9,
                               CHR 0xE6, CHR 0x9C, CHR 0xAA, CHR 0xE9, CHR 0x80, CHR 0x9A,
                               CHR 0xE8, CHR 0xBF, CHR 0x87, CHR 0xE5, CHR 0xAE, CHR 0xA1,
                               CHR 0xE6, CHR 0xA0, CHR 0xB8, CHR 0xEF, CHR 0xBC, CHR 0x8C,
                               CHR 0xE8, CHR 0xAF, CHR 0xB7, CHR 0xE4, CHR 0xBF, CHR 0xAE,
                               CHR 0xE6, CHR 0x94, CHR 0xB9, CHR 0xE5, CHR 0x90, CHR 0x8E,
                               CHR 0xE9, CHR 0x87, CHR 0x8D, CHR 0xE8, CHR 0xAF, CHR 0x95])
      | ResultTypeReview \<Rightarrow> [CHR 0xE5, CHR 0x86, CHR 0x85, CHR 0xE5, CHR 0xAE,
                                        CHR 0xB9, CHR 0xE9, CHR 0x9C, CHR 0x80, CHR 0xE8,
                                        CHR 0xA6, CHR 0x81, CHR 0xE4, CHR 0xBA, CHR 0xBA,
                                        CHR 0xE5, CHR 0xB7, CHR 0xA5, CHR 0xE5, CHR 0xAE,
                                        CHR 0xA1, CHR 0xE6, CHR 0xA0, CHR 0xB8, CHR 0xEF,
                                        CHR 0xBC, CHR 0x8C, CHR 0xE8, CHR 0xAF, CHR 0xB7,
                                        CHR 0xE7, CHR 0xAD, CHR 0x89, CHR 0xE5, CHR 0xBE,
                                        CHR 0x85, CHR 0xE5, CHR 0xAE, CHR 0xA1, CHR 0xE6,
                                        CHR 0xA0, CHR 0xB8, CHR 0xE7, CHR 0xBB, CHR 0x93,
                                        CHR 0xE6, CHR 0x9E, CHR 0x9C]
      | ResultTypeWarning \<Rightarrow> [CHR 0xE5, CHR 0x86, CHR 0x85, CHR 0xE5, CHR 0xAE,
                                         CHR 0xB9, CHR 0xE5, CHR 0xAD, CHR 0x98, CHR 0xE5,
                                         CHR 0x9C, CHR 0xA8, CHR 0xE9, CHR 0xA3, CHR 0x8E,
                                         CHR 0xE9, CHR 0x99, CHR 0xA9, CHR 0xEF, CHR 0xBC,
                                         CHR 0x8C, CHR 0xE5, CHR 0xBB, CHR 0xBA, CHR 0xE8,
                                         CHR 0xAE, CHR 0xAE, CHR 0xE4, CHR 0xBF, CHR 0xAE,
                                         CHR 0xE6, CHR 0x94, CHR 0xB9]
      | ResultTypePass \<Rightarrow> [CHR 0xE5, CHR 0x86, CHR 0x85, CHR 0xE5, CHR 0xAE, CHR 0xB9,
                                      CHR 0xE5, CHR 0xAE, CHR 0xA1, CHR 0xE6, CHR 0xA0, CHR 0xB8,
                                      CHR 0xE9, CHR 0x80, CHR 0x9A, CHR 0xE8, CHR 0xBF, CHR 0x87])"

text \<open>The last step of \<open>doContentCheck\<close>: the verdict from the highest score.\<close>

definition scoreResult ::
  "runtime \<Rightarrow> ContentCheckConfig \<Rightarrow> RiskItem list \<Rightarrow> real \<Rightarrow> real \<Rightarrow> CheckResult" where
  "scoreResult rt config allRisks totalScore maxScore =
     (let finalScore = maxScore;
          result =
            (if finalScore \<ge> real_of_int (RiskScoreThreshold config) then ResultTypeReject
             else if finalScore \<ge> real_of_int (RiskScoreThreshold config) * 0.7
               then ResultTypeReview
             else if finalScore \<ge> real_of_int (RiskScoreThreshold config) * 0.5
               then ResultTypeWarning
             else ResultTypePass)
      in \<lparr>Result = result, RiskScore = finalScore, Risks = allRisks, RequestID = [],
          Suggestion = generateSuggestion result allRisks, CostTime = 0,
          Extra = [(''total_score'', sprintf_2f rt totalScore)]\<rparr>)"

definition doContentCheck ::
  "runtime \<Rightarrow> ContentCheckConfig \<Rightarrow> RuleEngine \<Rightarrow> (string \<times> detector) list
     \<Rightarrow> string \<Rightarrow> string \<Rightarrow> string \<Rightarrow> ContextItem list \<Rightarrow> (string \<times> string) list
     \<Rightarrow> CheckResult" where
  "doContentCheck rt config engine detectors content userID scene contextItems extraData =
     (let checkCtx =
            \<lparr>Content = content, UserID = userID, Scene = scene,
             ContextItems = contextItems, ExtraData = extraData\<rparr>
      in case runDetectors detectors checkCtx ([], 0, 0) of
           (allRisks, totalScore, maxScore) \<Rightarrow>
             (case Evaluate engine checkCtx allRisks of
                Inl err \<Rightarrow> scoreResult rt config allRisks totalScore maxScore
              | Inr engineResult \<Rightarrow>
                  (case foldl mergeEngineRisk (allRisks, maxScore) (er_Risks engineResult) of
                     (merged, maxScore') \<Rightarrow>
                       if HasExplicitResult engineResult then
                         \<lparr>Result = er_Result engineResult, RiskScore = er_Score engineResult,
                          Risks = merged, RequestID = [],
                          Suggestion = er_Suggestion engineResult, CostTime = 0, Extra = []\<rparr>
                       else scoreResult rt config merged totalScore maxScore')))"

subsection \<open>The result cache\<close>

text \<open>
  The cache backend is Redis. Its state is a map from keys to a stored result and the
  instant at which the entry expires; a \<open>Get\<close> at an instant before that returns the result.
  Results are stored as JSON; the encoding is not modelled, a stored result is read back as
  it was written. Instants and durations are in nanoseconds.
\<close>

type_synonym redis = "string \<rightharpoonup> CheckResult \<times> int"

record ContentCheckService =
  cfg :: ContentCheckConfig
  ruleEngine :: RuleEngine
  redisClient :: redis

text \<open>
  What one call finds around it: the clock when the request id is made, the clock of the
  backend at the \<open>Get\<close> and at the \<open>Set\<close>, the measured duration, and whether the backend
  answers (a \<open>Get\<close> that fails is a miss, a \<open>Set\<close> that fails changes nothing).
\<close>

record call_env =
  req_clock :: int
  get_clock :: int
  set_clock :: int
  cost_ms :: int
  redis_up :: bool

definition getCachedResult :: "call_env \<Rightarrow> ContentCheckService \<Rightarrow> string \<Rightarrow> CheckResult option" where
  "getCachedResult env s key =
     (if \<not> redis_up env then None
      else case redisClient s key of
             None \<Rightarrow> None
           | Some (res, expiry) \<Rightarrow> if get_clock env < expiry then Some res else None)"

definition cacheResult ::
  "call_env \<Rightarrow> ContentCheckService \<Rightarrow> string \<Rightarrow> CheckResult \<Rightarrow> int \<Rightarrow> ContentCheckService" where
  "cacheResult env s key res ttl =
     (if \<not> redis_up env then s
      else s\<lparr>redisClient := (redisClient s)(key \<mapsto> (res, set_clock env + ttl))\<rparr>)"

definition requestID_of :: "call_env \<Rightarrow> string \<Rightarrow> string" where
  "requestID_of env userID = ''req_'' @ format_d (req_clock env) @ ''_'' @ userID"

definition cacheKey_of :: "runtime \<Rightarrow> string \<Rightarrow> string" where
  "cacheKey_of rt content = ''content_check:'' @ HashString rt content"

definition CheckContent ::
  "runtime \<Rightarrow> call_env \<Rightarrow> (string \<times> detector) list \<Rightarrow> ContentCheckService
     \<Rightarrow> string \<Rightarrow> string \<Rightarrow> string \<Rightarrow> (string \<times> string) list
     \<Rightarrow> (error + CheckResult) \<times> ContentCheckService" where
  "CheckContent rt env detectors s content userID scene extraData =
     (if content = [] then (Inl ErrEmptyContent, s)
      else
        let requestID = requestID_of env userID;
            cacheKey = cacheKey_of rt content
        in case getCachedResult env s cacheKey of
             Some cachedResult \<Rightarrow>
               (Inr (cachedResult\<lparr>RequestID := requestID, CostTime := 0\<rparr>), s)
           | None \<Rightarrow>
               let result =
                     (doContentCheck rt (cfg s) (ruleEngine s) detectors content userID scene []
                        extraData)
                     \<lparr>RequestID := requestID, CostTime := cost_ms env\<rparr>
               in (Inr result,
                   if Result result \<noteq> ResultTypeReject
                   then cacheResult env s cacheKey result (CacheTTL (cfg s) * 1000000000)
                   else s))"



subsection \<open>BatchCheckContent\<close>

record CheckRequest =
  cr_Content :: string
  cr_UserID :: string
  cr_Scene :: string
  cr_RequestID :: string
  cr_ExtraData :: "(string \<times> string) list"

record BatchCheckResult =
  BatchID :: string
  Results :: "CheckResult list"
  TotalCostTime :: int

record batchResult =
  index :: nat
  outcome :: "error + CheckResult"

datatype 'a go = Panics | Returns 'a

text \<open>
  The loop that reads the channel: a failed task sets \<open>lastError\<close>, the result of any other
  is stored under its index.
\<close>

fun collectResults ::
  "batchResult list \<Rightarrow> (nat \<rightharpoonup> CheckResult) \<Rightarrow> error option
     \<Rightarrow> (nat \<rightharpoonup> CheckResult) \<times> error option" where
  "collectResults [] resultMap lastError = (resultMap, lastError)"
| "collectResults (res # rest) resultMap lastError =
     (case outcome res of
        Inl e \<Rightarrow> collectResults rest resultMap (Some e)
      | Inr r \<Rightarrow> collectResults rest (resultMap(index res \<mapsto> r)) lastError)"

definition failedResult :: "string \<Rightarrow> nat \<Rightarrow> CheckResult" where
  "failedResult batchID i =
     \<lparr>Result = ResultTypePass, RiskScore = 0, Risks = [],
      RequestID = ''batch_'' @ batchID @ ''_idx_'' @ decimal i,
      Suggestion = [], CostTime = 0, Extra = [(''error'', [CHR 0xE5, CHR 0xA4, CHR 0x84,
                                                           CHR 0xE7, CHR 0x90, CHR 0x86,
                                                           CHR 0xE5, CHR 0xA4, CHR 0xB1,
                                                           CHR 0xE8, CHR 0xB4, CHR 0xA5] \<comment> \<open>U+5904 U+7406 U+5931 U+8D25\<close>)]\<rparr>"

text \<open>The errors among the messages of a channel, in the order of the messages.\<close>

definition errorsOf :: "batchResult list \<Rightarrow> error list" where
  "errorsOf msgs = concat (map (\<lambda>msg. case outcome msg of Inl e \<Rightarrow> [e] | Inr r \<Rightarrow> []) msgs)"

text \<open>
  The tasks run concurrently. \<open>check idx req\<close> is what the call of \<open>CheckContent\<close> made by
  task \<open>idx\<close> returns, and \<open>channel\<close> gives the order in which the messages of the tasks
  are received; every task sends one message, so \<open>channel\<close> permutes the list it is given.
  The slice expression \<open>items[:BatchCheckMaxSize]\<close> panics for a negative bound.
\<close>

definition BatchCheckContent ::
  "ContentCheckConfig \<Rightarrow> (nat \<Rightarrow> CheckRequest \<Rightarrow> error + CheckResult)
     \<Rightarrow> (batchResult list \<Rightarrow> batchResult list) \<Rightarrow> int
     \<Rightarrow> CheckRequest list \<Rightarrow> string \<Rightarrow> (BatchCheckResult option \<times> error option) go" where
  "BatchCheckContent config check channel total_ms items batchID =
     (if items = [] then Returns (None, Some ErrInvalidRequest)
      else if int (length items) > BatchCheckMaxSize config \<and> BatchCheckMaxSize config < 0
        then Panics
      else
        let items' =
              (if int (length items) > BatchCheckMaxSize config
               then take (nat (BatchCheckMaxSize config)) items else items);
            sent = map (\<lambda>idx. \<lparr>index = idx, outcome = check idx (items' ! idx)\<rparr>)
                     [0..<length items']
        in case collectResults (channel sent) Map.empty None of
             (resultMap, lastError) \<Rightarrow>
               Returns
                 (Some \<lparr>BatchID = batchID,
                        Results =
                          map (\<lambda>i. case resultMap i of
                                      Some res \<Rightarrow> res
                                    | None \<Rightarrow> failedResult batchID i)
                            [0..<length items'],
                        TotalCostTime = total_ms\<rparr>,
                  lastError))"

section \<open>SensitiveWords\<close>










section \<open>Inputs of the examples\<close>

text \<open>U+4F60 U+771F U+662F U+4E2A U+5E9F U+7269, the content of the scenario of the specification.\<close>

definition content_feiwu :: string where
  "content_feiwu = [CHR 0xE4, CHR 0xBD, CHR 0xA0, CHR 0xE7, CHR 0x9C, CHR 0x9F,
                    CHR 0xE6, CHR 0x98, CHR 0xAF, CHR 0xE4, CHR 0xB8, CHR 0xAA,
                    CHR 0xE5, CHR 0xBA, CHR 0x9F, CHR 0xE7, CHR 0x89, CHR 0xA9]"

definition ctx_feiwu :: CheckContext where
  "ctx_feiwu = \<lparr>Content = content_feiwu, UserID = ''user123'', Scene = ''comment'',
                 ContextItems = [], ExtraData = []\<rparr>"

text \<open>A content with the first keyword of \<open>harassmentKeywords\<close> (U+9A9A U+6270) in it.\<close>

definition ctx_saorao :: CheckContext where
  "ctx_saorao = \<lparr>Content = [CHR 0xE4, CHR 0xBD, CHR 0xA0, CHR 0xE5, CHR 0x9C, CHR 0xA8,
                                   CHR 0xE9, CHR 0xAA, CHR 0x9A, CHR 0xE6, CHR 0x89, CHR 0xB0,
                                   CHR 0xE6, CHR 0x88, CHR 0x91], UserID = ''user123'', Scene = ''comment'',
                  ContextItems = [], ExtraData = []\<rparr>"

text \<open>The rules of \<open>config/rules.json\<close>, as a loaded engine.\<close>

definition rule_sensitive_words :: Rule where
  "rule_sensitive_words =
     \<lparr>ID = ''sensitive_words'', Name = [CHR 0xE6, CHR 0x95, CHR 0x8F, CHR 0xE6, CHR 0x84,
                                               CHR 0x9F, CHR 0xE8, CHR 0xAF, CHR 0x8D, CHR 0xE6,
                                               CHR 0xA3, CHR 0x80, CHR 0xE6, CHR 0xB5, CHR 0x8B],
      rule_Description = [CHR 0xE6, CHR 0xA3, CHR 0x80, CHR 0xE6, CHR 0xB5, CHR 0x8B,
                          CHR 0xE5, CHR 0x86, CHR 0x85, CHR 0xE5, CHR 0xAE, CHR 0xB9,
                          CHR 0xE4, CHR 0xB8, CHR 0xAD, CHR 0xE6, CHR 0x98, CHR 0xAF,
                          CHR 0xE5, CHR 0x90, CHR 0xA6, CHR 0xE5, CHR 0x8C, CHR 0x85,
                          CHR 0xE5, CHR 0x90, CHR 0xAB, CHR 0xE6, CHR 0x95, CHR 0x8F,
                          CHR 0xE6, CHR 0x84, CHR 0x9F, CHR 0xE8, CHR 0xAF, CHR 0x8D],
      Enabled = True, Priority = 100, Action = ''block'', rule_Score = 80,
      rule_Config = [''match_type'' \<mapsto> CfgString ''exact'', ''words'' \<mapsto> CfgOther,
                     ''category'' \<mapsto> CfgString ''sensitive'']\<rparr>"

definition rule_spam_detection :: Rule where
  "rule_spam_detection =
     \<lparr>ID = ''spam_detection'', Name = [CHR 0xE5, CHR 0x9E, CHR 0x83, CHR 0xE5, CHR 0x9C,
                                              CHR 0xBE, CHR 0xE5, CHR 0x86, CHR 0x85, CHR 0xE5,
                                              CHR 0xAE, CHR 0xB9, CHR 0xE6, CHR 0xA3, CHR 0x80,
                                              CHR 0xE6, CHR 0xB5, CHR 0x8B],
      rule_Description = [CHR 0xE6, CHR 0xA3, CHR 0x80, CHR 0xE6, CHR 0xB5, CHR 0x8B,
                          CHR 0xE5, CHR 0x86, CHR 0x85, CHR 0xE5, CHR 0xAE, CHR 0xB9,
                          CHR 0xE6, CHR 0x98, CHR 0xAF, CHR 0xE5, CHR 0x90, CHR 0xA6,
                          CHR 0xE4, CHR 0xB8, CHR 0xBA, CHR 0xE5, CHR 0x9E, CHR 0x83,
                          CHR 0xE5, CHR 0x9C, CHR 0xBE, CHR 0xE4, CHR 0xBF, CHR 0xA1,
                          CHR 0xE6, CHR 0x81, CHR 0xAF],
      Enabled = True, Priority = 90, Action = ''mark'', rule_Score = 60,
      rule_Config = [''threshold'' \<mapsto> CfgOther, ''patterns'' \<mapsto> CfgOther]\<rparr>"

definition rule_context_analysis :: Rule where
  "rule_context_analysis =
     \<lparr>ID = ''context_analysis'', Name = [CHR 0xE4, CHR 0xB8, CHR 0x8A, CHR 0xE4, CHR 0xB8,
                                                CHR 0x8B, CHR 0xE6, CHR 0x96, CHR 0x87, CHR 0xE5,
                                                CHR 0x88, CHR 0x86, CHR 0xE6, CHR 0x9E, CHR 0x90],
      rule_Description = [CHR 0xE5, CHR 0x9F, CHR 0xBA, CHR 0xE4, CHR 0xBA, CHR 0x8E,
                          CHR 0xE4, CHR 0xB8, CHR 0x8A, CHR 0xE4, CHR 0xB8, CHR 0x8B,
                          CHR 0xE6, CHR 0x96, CHR 0x87, CHR 0xE5, CHR 0x88, CHR 0x86,
                          CHR 0xE6, CHR 0x9E, CHR 0x90, CHR 0xE5, CHR 0x86, CHR 0x85,
                          CHR 0xE5, CHR 0xAE, CHR 0xB9, CHR 0xE9, CHR 0xA3, CHR 0x8E,
                          CHR 0xE9, CHR 0x99, CHR 0xA9],
      Enabled = True, Priority = 80, Action = ''review'', rule_Score = 50,
      rule_Config = [''context_size'' \<mapsto> CfgOther, ''sensitivity'' \<mapsto> CfgString ''medium'',
                     ''categories'' \<mapsto> CfgOther]\<rparr>"

definition rule_user_reputation :: Rule where
  "rule_user_reputation =
     \<lparr>ID = ''user_reputation'', Name = [CHR 0xE7, CHR 0x94, CHR 0xA8, CHR 0xE6, CHR 0x88,
                                               CHR 0xB7, CHR 0xE4, CHR 0xBF, CHR 0xA1, CHR 0xE8,
                                               CHR 0xAA, CHR 0x89] \<comment> \<open>U+7528 U+6237 U+4FE1 U+8A89\<close>,
      rule_Description = [CHR 0xE5, CHR 0x9F, CHR 0xBA, CHR 0xE4, CHR 0xBA, CHR 0x8E,
                          CHR 0xE7, CHR 0x94, CHR 0xA8, CHR 0xE6, CHR 0x88, CHR 0xB7,
                          CHR 0xE5, CHR 0x8E, CHR 0x86, CHR 0xE5, CHR 0x8F, CHR 0xB2,
                          CHR 0xE8, CHR 0xA1, CHR 0x8C, CHR 0xE4, CHR 0xB8, CHR 0xBA,
                          CHR 0xE8, CHR 0xAF, CHR 0x84, CHR 0xE4, CHR 0xBC, CHR 0xB0,
                          CHR 0xE5, CHR 0x86, CHR 0x85, CHR 0xE5, CHR 0xAE, CHR 0xB9,
                          CHR 0xE9, CHR 0xA3, CHR 0x8E, CHR 0xE9, CHR 0x99, CHR 0xA9],
      Enabled = True, Priority = 70, Action = ''none'', rule_Score = 30,
      rule_Config = [''low_reputation_threshold'' \<mapsto> CfgOther,
                     ''high_reputation_threshold'' \<mapsto> CfgOther]\<rparr>"

definition default_engine :: RuleEngine where
  "default_engine =
     \<lparr>Rules = [rule_user_reputation, rule_sensitive_words, rule_context_analysis,
               rule_spam_detection],
      initialized = True\<rparr>"

text \<open>
  A configuration with the threshold of \<open>config.yaml\<close>, a runtime, and a pipeline whose one
  detector is an \<open>AIDetector\<close> that the service answers with one risk of a given score.
\<close>

definition config70 :: ContentCheckConfig where
  "config70 = \<lparr>RiskScoreThreshold = 70, CacheTTL = 300, BatchCheckMaxSize = 100\<rparr>"

definition runtime0 :: runtime where
  "runtime0 = \<lparr>sprintf_2f = (\<lambda>x. ''0.00''), HashString = (\<lambda>s. s)\<rparr>"












text \<open>
  A service with an empty cache and two calls of \<open>CheckContent\<close> on the same harmless
  content, five microseconds apart.
\<close>

definition service0 :: ContentCheckService where
  "service0 = \<lparr>cfg = config70, ruleEngine = default_engine, redisClient = Map.empty\<rparr>"

definition env_first :: call_env where
  "env_first = \<lparr>req_clock = 1000, get_clock = 1000, set_clock = 2000, cost_ms = 3,
                 redis_up = True\<rparr>"


definition first_call :: "(error + CheckResult) \<times> ContentCheckService" where
  "first_call =
     CheckContent runtime0 env_first [(''harassment'', HarassmentDetector_Detect)] service0
       ''hello'' ''user1'' ''post'' []"

definition first_result :: CheckResult where
  "first_result =
     \<lparr>Result = ResultTypePass, RiskScore = 0, Risks = [],
      RequestID = requestID_of env_first ''user1'',
      Suggestion = generateSuggestion ResultTypePass [], CostTime = 3,
      Extra = [(''total_score'', ''0.00'')]\<rparr>"





text \<open>
  A batch of three requests, the second with an empty content, whose messages arrive in the
  reverse order. \<open>check_seq\<close> is a run of the tasks in which every task finds the cache
  of \<open>service0\<close>.
\<close>

definition batch_items :: "CheckRequest list" where
  "batch_items =
     [\<lparr>cr_Content = ''hello'', cr_UserID = ''user1'', cr_Scene = ''post'', cr_RequestID = [],
       cr_ExtraData = []\<rparr>,
      \<lparr>cr_Content = [], cr_UserID = ''user2'', cr_Scene = ''post'', cr_RequestID = [],
       cr_ExtraData = []\<rparr>,
      \<lparr>cr_Content = ''hello'', cr_UserID = ''user3'', cr_Scene = ''post'', cr_RequestID = [],
       cr_ExtraData = []\<rparr>]"

definition check_seq :: "nat \<Rightarrow> CheckRequest \<Rightarrow> error + CheckResult" where
  "check_seq idx req =
     fst (CheckContent runtime0 env_first [(''harassment'', HarassmentDetector_Detect)] service0
            (cr_Content req) (cr_UserID req) (cr_Scene req) (cr_ExtraData req))"





section \<open>Lists\<close>

lemma find_Some_list_ex: "list_ex P xs \<Longrightarrow> \<exists>x. find P xs = Some x \<and> P x \<and> x \<in> set xs"
  by (induction xs) auto

lemma find_None_list_ex: "\<not> list_ex P xs \<Longrightarrow> find P xs = None"
  by (induction xs) auto

section \<open>HarassmentDetector on a content without context\<close>

text \<open>
  C4, as the specification states it, fails: the content of the scenario contains none of
  the keywords of \<open>harassmentKeywords\<close> (U+5E9F U+7269 is not among them), and
  \<open>HarassmentDetector.Detect\<close> returns no risk item for it.
\<close>

theorem C4_feiwu_no_risk: "HarassmentDetector_Detect ctx_feiwu = Inr []"
  by (simp add: ctx_feiwu_def content_feiwu_def HarassmentDetector_Detect_def ToLower_def
      lower_byte_def harassmentKeywords_def)

text \<open>
  C4, amended: for a content without context items, \<open>HarassmentDetector.Detect\<close> returns
  exactly one risk item, of type Harassment and score 70, when the lower-cased content
  contains a keyword of \<open>harassmentKeywords\<close>, and no risk item otherwise; the content of
  the scenario contains none.
\<close>

theorem C4_keyword_one_risk:
  "(ContextItems ctx = [] \<longrightarrow>
      (if list_ex (\<lambda>keyword. Contains (ToLower (Content ctx)) keyword) harassmentKeywords
       then \<exists>item. HarassmentDetector_Detect ctx = Inr [item] \<and>
                   Type item = RiskTypeHarassment \<and> Score item = 70
       else HarassmentDetector_Detect ctx = Inr []))
   \<and> \<not> list_ex (\<lambda>keyword. Contains (ToLower content_feiwu) keyword) harassmentKeywords"
proof (intro conjI impI)
  assume nil: "ContextItems ctx = []"
  let ?P = "\<lambda>keyword. Contains (ToLower (Content ctx)) keyword"
  show "if list_ex ?P harassmentKeywords
        then \<exists>item. HarassmentDetector_Detect ctx = Inr [item] \<and>
                    Type item = RiskTypeHarassment \<and> Score item = 70
        else HarassmentDetector_Detect ctx = Inr []"
  proof (cases "list_ex ?P harassmentKeywords")
    case True
    then obtain k where k: "find ?P harassmentKeywords = Some k" "?P k"
      using find_Some_list_ex by blast
    have "Content ctx \<noteq> []"
    proof
      assume "Content ctx = []"
      with True show False by (simp add: ToLower_def harassmentKeywords_def)
    qed
    with k nil True show ?thesis
      by (simp add: HarassmentDetector_Detect_def)
  next
    case False
    then have "find ?P harassmentKeywords = None" by (rule find_None_list_ex)
    with nil False show ?thesis
      by (simp add: HarassmentDetector_Detect_def)
  qed
next
  show "\<not> list_ex (\<lambda>keyword. Contains (ToLower content_feiwu) keyword) harassmentKeywords"
    by (simp add: content_feiwu_def ToLower_def lower_byte_def harassmentKeywords_def)
qed

theorem C4_keyword_one_risk_witness:
  "ContextItems ctx_saorao = [] \<and>
   list_ex (\<lambda>keyword. Contains (ToLower (Content ctx_saorao)) keyword) harassmentKeywords \<and>
   (\<exists>item. HarassmentDetector_Detect ctx_saorao = Inr [item] \<and>
           Type item = RiskTypeHarassment \<and> Score item = 70)"
proof -
  have a: "ContextItems ctx_saorao = []" by (simp add: ctx_saorao_def)
  have b: "list_ex (\<lambda>keyword. Contains (ToLower (Content ctx_saorao)) keyword) harassmentKeywords"
    by (simp add: ctx_saorao_def ToLower_def lower_byte_def harassmentKeywords_def)
  from C4_keyword_one_risk [of ctx_saorao] a b show ?thesis by simp
qed

section \<open>The rule engine matches no rule\<close>

lemma evaluateRule_no_match: "evaluateRule rule ctx existingRiskTypes = (False, None)"
  by (simp add: evaluateRule_def split: option.split cfg_value.split)

lemma evaluateRules_no_match:
  "(\<And>r. r \<in> set rules \<Longrightarrow> \<not> fst (ev r)) \<Longrightarrow>
   evaluateRules ev rules risks hs hr = evaluateRules ev [] risks hs hr"
  by (induction rules) simp_all

lemma Evaluate_eq:
  "Evaluate e ctx existingRisks =
     (if initialized e
      then Inr \<lparr>er_Result = ResultTypePass, er_Score = 0, er_Risks = [], er_Suggestion = [],
                HasExplicitResult = False\<rparr>
      else Inl (Errorf ''rule engine not initialized''))"
proof -
  have "evaluateRules (\<lambda>rule. evaluateRule rule ctx (\<lambda>t. t \<in> set (map Type existingRisks))) rs
          [] 0 ResultTypePass
        = evaluateRules (\<lambda>rule. evaluateRule rule ctx (\<lambda>t. t \<in> set (map Type existingRisks))) []
          [] 0 ResultTypePass" for rs
    by (rule evaluateRules_no_match) (simp add: evaluateRule_no_match)
  then show ?thesis
    by (simp add: Evaluate_def EvaluateWith_def)
qed

lemma addRisk_eq:
  "addRisk (allRisks, totalScore, maxScore) risk =
     (allRisks @ [risk], totalScore + Score risk, max maxScore (Score risk))"
  by (simp add: addRisk_def max_def)

lemma foldl_addRisk:
  "foldl addRisk (allRisks, totalScore, maxScore) risks =
     (allRisks @ risks, totalScore + sum_list (map Score risks),
      foldl max maxScore (map Score risks))"
  by (induction risks arbitrary: allRisks totalScore maxScore)
     (simp_all add: addRisk_eq add.assoc)

lemma runDetectors_eq:
  "runDetectors detectors ctx (allRisks, totalScore, maxScore) =
     (allRisks @ detectedRisks detectors ctx,
      totalScore + sum_list (map Score (detectedRisks detectors ctx)),
      foldl max maxScore (map Score (detectedRisks detectors ctx)))"
proof (induction detectors arbitrary: allRisks totalScore maxScore)
  case Nil
  show ?case by (simp add: detectedRisks_def)
next
  case (Cons d ds)
  obtain name det where d: "d = (name, det)" by (cases d)
  show ?case
  proof (cases "det ctx")
    case (Inl err)
    with d Cons.IH show ?thesis by (simp add: detectedRisks_def)
  next
    case (Inr risks)
    with d Cons.IH show ?thesis
      by (simp add: detectedRisks_def foldl_addRisk add.assoc)
  qed
qed

lemma doContentCheck_eq:
  "doContentCheck rt config engine detectors content userID scene contextItems extraData =
     (let risks = detectedRisks detectors
                    \<lparr>Content = content, UserID = userID, Scene = scene,
                     ContextItems = contextItems, ExtraData = extraData\<rparr>
      in scoreResult rt config risks (sum_list (map Score risks)) (foldl max 0 (map Score risks)))"
  by (simp add: doContentCheck_def runDetectors_eq Evaluate_eq Let_def)


text \<open>
  C2: \<open>evaluateRule\<close> matches no rule; on an initialized engine, whatever its rules, \<open>Evaluate\<close> returns no explicit
  result, score 0, the verdict Pass and no risk item, for every context and every list of
  existing risks; so \<open>doContentCheck\<close> never takes the branch of the explicit result, and
  its result is the one that \<open>scoreResult\<close> computes from the risk items of the detectors.
\<close>

theorem C2_engine_never_matches:
  "evaluateRule rule ctx existingRiskTypes = (False, None)
   \<and> (initialized e \<longrightarrow>
      Evaluate e ctx existingRisks =
        Inr \<lparr>er_Result = ResultTypePass, er_Score = 0, er_Risks = [], er_Suggestion = [],
             HasExplicitResult = False\<rparr>)
   \<and> doContentCheck rt config e detectors content userID scene contextItems extraData =
       (let risks = detectedRisks detectors
                      \<lparr>Content = content, UserID = userID, Scene = scene,
                       ContextItems = contextItems, ExtraData = extraData\<rparr>
        in scoreResult rt config risks (sum_list (map Score risks))
             (foldl max 0 (map Score risks)))"
  by (simp add: evaluateRule_no_match Evaluate_eq doContentCheck_eq)

theorem C2_engine_never_matches_witness:
  "initialized default_engine \<and>
   Evaluate default_engine ctx_feiwu [] =
     Inr \<lparr>er_Result = ResultTypePass, er_Score = 0, er_Risks = [], er_Suggestion = [],
          HasExplicitResult = False\<rparr>"
proof -
  have i: "initialized default_engine" by (simp add: default_engine_def)
  with C2_engine_never_matches [where e = default_engine and ctx = ctx_feiwu
      and existingRisks = "[]"]
  show ?thesis by simp
qed

section \<open>The verdict from the highest score\<close>







section \<open>The risk list of a result\<close>









section \<open>The order of the detectors\<close>









section \<open>sortRulesByPriority sorts\<close>

text \<open>
  The exchange loops put the rules in the order of descending priority, and keep the rules.
  The equations of the two loops are unfolded by hand from here on.
\<close>

declare sort_inner.simps [simp del] sort_outer.simps [simp del]

lemma length_sort_inner: "length (sort_inner i j rules) = length rules"
proof (induction i j rules rule: sort_inner.induct)
  case (1 i j rules)
  show ?case
  proof (cases "j < length rules")
    case True
    with "1.IH" show ?thesis
      by (subst sort_inner.simps) simp
  next
    case False
    then show ?thesis by (subst sort_inner.simps) simp
  qed
qed

lemma mset_sort_inner: "i < j \<Longrightarrow> mset (sort_inner i j rules) = mset rules"
proof (induction i j rules rule: sort_inner.induct)
  case (1 i j rules)
  show ?case
  proof (cases "j < length rules")
    case True
    let ?rules' = "if Priority (rules ! i) < Priority (rules ! j)
                   then rules[i := rules ! j, j := rules ! i] else rules"
    from True "1.prems" have "mset ?rules' = mset rules"
      by (simp add: mset_swap)
    moreover from True "1.prems" "1.IH" have "mset (sort_inner i (Suc j) ?rules') = mset ?rules'"
      by simp
    ultimately show ?thesis
      using True by (subst sort_inner.simps) simp
  next
    case False
    then show ?thesis by (subst sort_inner.simps) simp
  qed
qed

lemma take_sort_inner: "i < j \<Longrightarrow> take i (sort_inner i j rules) = take i rules"
proof (induction i j rules rule: sort_inner.induct)
  case (1 i j rules)
  show ?case
  proof (cases "j < length rules")
    case True
    let ?rules' = "if Priority (rules ! i) < Priority (rules ! j)
                   then rules[i := rules ! j, j := rules ! i] else rules"
    from "1.prems" have "take i ?rules' = take i rules" by simp
    moreover from True "1.prems" "1.IH" have "take i (sort_inner i (Suc j) ?rules') = take i ?rules'"
      by simp
    ultimately show ?thesis
      using True by (subst sort_inner.simps) simp
  next
    case False
    then show ?thesis by (subst sort_inner.simps) simp
  qed
qed

lemma sort_inner_max:
  "i < j \<Longrightarrow> \<forall>k. i < k \<and> k < j \<longrightarrow> Priority (rules ! k) \<le> Priority (rules ! i) \<Longrightarrow>
   \<forall>k. i < k \<and> k < length rules \<longrightarrow>
       Priority (sort_inner i j rules ! k) \<le> Priority (sort_inner i j rules ! i)"
proof (induction i j rules rule: sort_inner.induct)
  case (1 i j rules)
  show ?case
  proof (cases "j < length rules")
    case True
    let ?rules' = "if Priority (rules ! i) < Priority (rules ! j)
                   then rules[i := rules ! j, j := rules ! i] else rules"
    have len: "length ?rules' = length rules" by simp
    have "\<forall>k. i < k \<and> k < Suc j \<longrightarrow> Priority (?rules' ! k) \<le> Priority (?rules' ! i)"
    proof (intro allI impI)
      fix k
      assume k: "i < k \<and> k < Suc j"
      show "Priority (?rules' ! k) \<le> Priority (?rules' ! i)"
      proof (cases "Priority (rules ! i) < Priority (rules ! j)")
        case sw: True
        show ?thesis
        proof (cases "k = j")
          case True
          with sw "1.prems"(1) \<open>j < length rules\<close> show ?thesis by simp
        next
          case False
          with k have "k < j" by simp
          with k "1.prems"(2) have "Priority (rules ! k) \<le> Priority (rules ! i)" by simp
          with sw False k "1.prems"(1) \<open>j < length rules\<close> show ?thesis by simp
        qed
      next
        case ns: False
        show ?thesis
        proof (cases "k = j")
          case True
          with ns show ?thesis by simp
        next
          case False
          with k have "k < j" by simp
          with k "1.prems"(2) ns show ?thesis by simp
        qed
      qed
    qed
    with True "1.prems"(1) "1.IH"
    have "\<forall>k. i < k \<and> k < length ?rules' \<longrightarrow>
            Priority (sort_inner i (Suc j) ?rules' ! k) \<le> Priority (sort_inner i (Suc j) ?rules' ! i)"
      by simp
    then show ?thesis
      using True len by (subst (1 2) sort_inner.simps) simp
  next
    case False
    with "1.prems" show ?thesis by (subst (1 2) sort_inner.simps) simp
  qed
qed


lemma mset_drop_sort_inner:
  assumes "i < j"
  shows "mset (drop i (sort_inner i j rules)) = mset (drop i rules)"
proof -
  let ?rules' = "sort_inner i j rules"
  have "mset (take i ?rules' @ drop i ?rules') = mset (take i rules @ drop i rules)"
    using mset_sort_inner [OF assms, of rules] by simp
  then have "mset (take i ?rules') + mset (drop i ?rules') =
             mset (take i rules) + mset (drop i rules)"
    by (simp only: mset_append)
  then show ?thesis
    by (simp add: take_sort_inner [OF assms])
qed

lemma sort_inner_dominated:
  assumes dom: "\<forall>a b. a < i \<and> a < b \<and> b < length rules \<longrightarrow>
                  Priority (rules ! b) \<le> Priority (rules ! a)"
    and i: "i < length rules"
  shows "\<forall>a b. a < Suc i \<and> a < b \<and> b < length rules \<longrightarrow>
           Priority (sort_inner i (Suc i) rules ! b) \<le> Priority (sort_inner i (Suc i) rules ! a)"
proof (intro allI impI)
  fix a b
  let ?rules' = "sort_inner i (Suc i) rules"
  assume ab: "a < Suc i \<and> a < b \<and> b < length rules"
  have len: "length ?rules' = length rules" by (rule length_sort_inner)
  have same: "?rules' ! k = rules ! k" if "k < i" for k
  proof -
    have "take i ?rules' ! k = take i rules ! k" by (simp add: take_sort_inner)
    with that show ?thesis by simp
  qed
  show "Priority (?rules' ! b) \<le> Priority (?rules' ! a)"
  proof (cases "a = i")
    case True
    have "\<forall>k. i < k \<and> k < length rules \<longrightarrow>
            Priority (?rules' ! k) \<le> Priority (?rules' ! i)"
      by (rule sort_inner_max) simp_all
    with True ab show ?thesis by simp
  next
    case False
    with ab have a: "a < i" by simp
    show ?thesis
    proof (cases "b < i")
      case True
      with a ab dom have "Priority (rules ! b) \<le> Priority (rules ! a)" by blast
      with a True show ?thesis by (simp add: same)
    next
      case False
      then have b: "b = i + (b - i)" by simp
      from False ab len have bl: "b - i < length (drop i ?rules')" by (simp, arith)
      then have "drop i ?rules' ! (b - i) \<in> set (drop i ?rules')" by (rule nth_mem)
      moreover from False ab len have "drop i ?rules' ! (b - i) = ?rules' ! b" by simp
      ultimately have "?rules' ! b \<in> set (drop i ?rules')" by simp
      moreover have "set (drop i ?rules') = set (drop i rules)"
        by (rule mset_eq_setD) (simp add: mset_drop_sort_inner)
      ultimately have "?rules' ! b \<in> set (drop i rules)" by simp
      then obtain c where c: "c < length (drop i rules)" "drop i rules ! c = ?rules' ! b"
        unfolding in_set_conv_nth by blast
      from c(1) have lc: "i + c < length rules" by simp
      with c(2) have eq: "rules ! (i + c) = ?rules' ! b" by simp
      from a have "a < i + c" by simp
      with a lc dom have "Priority (rules ! (i + c)) \<le> Priority (rules ! a)" by blast
      with eq a show ?thesis by (simp add: same)
    qed
  qed
qed


lemma sort_outer_dominated:
  assumes "n = length rules"
    and "\<forall>a b. a < i \<and> a < b \<and> b < length rules \<longrightarrow>
           Priority (rules ! b) \<le> Priority (rules ! a)"
  shows "length (sort_outer n i rules) = length rules \<and>
         mset (sort_outer n i rules) = mset rules \<and>
         (\<forall>a b. a < b \<and> b < length rules \<longrightarrow>
            Priority (sort_outer n i rules ! b) \<le> Priority (sort_outer n i rules ! a))"
  using assms
proof (induction n i rules rule: sort_outer.induct)
  case (1 n i rules)
  show ?case
  proof (cases "Suc i < n")
    case True
    let ?rules' = "sort_inner i (Suc i) rules"
    have len: "length ?rules' = length rules" by (rule length_sort_inner)
    have ms: "mset ?rules' = mset rules" by (rule mset_sort_inner) simp
    from True "1.prems"(1) have i: "i < length rules" by simp
    have "\<forall>a b. a < Suc i \<and> a < b \<and> b < length rules \<longrightarrow>
            Priority (?rules' ! b) \<le> Priority (?rules' ! a)"
      using "1.prems"(2) i by (rule sort_inner_dominated)
    with True "1.prems"(1) len "1.IH"
    have "length (sort_outer n (Suc i) ?rules') = length ?rules' \<and>
          mset (sort_outer n (Suc i) ?rules') = mset ?rules' \<and>
          (\<forall>a b. a < b \<and> b < length ?rules' \<longrightarrow>
             Priority (sort_outer n (Suc i) ?rules' ! b) \<le>
             Priority (sort_outer n (Suc i) ?rules' ! a))"
      by simp
    with True len ms show ?thesis
      by (subst (1 2 3 4) sort_outer.simps) simp
  next
    case False
    have "Priority (rules ! b) \<le> Priority (rules ! a)" if "a < b" "b < length rules" for a b
    proof -
      from that False "1.prems"(1) have "a < i" by simp
      with that "1.prems"(2) show ?thesis by blast
    qed
    with False show ?thesis
      by (subst (1 2 3 4) sort_outer.simps) simp
  qed
qed


lemma mset_sortRulesByPriority: "mset (sortRulesByPriority e) = mset (Rules e)"
  using sort_outer_dominated [of "length (Rules e)" "Rules e" 0]
  by (simp add: sortRulesByPriority_def)

section \<open>The loop of Evaluate stops at a rule of action block\<close>








section \<open>The result cache\<close>





lemma CheckContent_miss:
  assumes "content \<noteq> []" and "getCachedResult env s (cacheKey_of rt content) = None"
  shows "CheckContent rt env detectors s content userID scene extraData =
     (let result = (doContentCheck rt (cfg s) (ruleEngine s) detectors content userID scene []
                      extraData)\<lparr>RequestID := requestID_of env userID, CostTime := cost_ms env\<rparr>
      in (Inr result,
          if Result result \<noteq> ResultTypeReject
          then cacheResult env s (cacheKey_of rt content) result (CacheTTL (cfg s) * 1000000000)
          else s))"
  using assms by (simp add: CheckContent_def Let_def)




lemma first_call_eq:
  "first_call =
     (Inr first_result,
      service0\<lparr>redisClient := [cacheKey_of runtime0 ''hello'' \<mapsto> (first_result, 300000002000)]\<rparr>)"
proof -
  have miss: "getCachedResult env_first service0 (cacheKey_of runtime0 ''hello'') = None"
    by (simp add: getCachedResult_def service0_def)
  have d: "doContentCheck runtime0 config70 default_engine
             [(''harassment'', HarassmentDetector_Detect)] ''hello'' ''user1'' ''post'' [] [] =
           \<lparr>Result = ResultTypePass, RiskScore = 0, Risks = [], RequestID = [],
            Suggestion = generateSuggestion ResultTypePass [], CostTime = 0,
            Extra = [(''total_score'', ''0.00'')]\<rparr>"
    by (simp add: doContentCheck_eq detectedRisks_def HarassmentDetector_Detect_def ToLower_def
        lower_byte_def harassmentKeywords_def scoreResult_def config70_def runtime0_def Let_def)
  have c: "cfg service0 = config70" "ruleEngine service0 = default_engine"
    "redisClient service0 = Map.empty"
    by (simp_all add: service0_def)
  have e: "cost_ms env_first = 3" "redis_up env_first" "set_clock env_first = 2000"
    "CacheTTL config70 = 300"
    by (simp_all add: env_first_def config70_def)
  have "first_call =
     (let result = (doContentCheck runtime0 (cfg service0) (ruleEngine service0)
                      [(''harassment'', HarassmentDetector_Detect)] ''hello'' ''user1'' ''post'' []
                      [])\<lparr>RequestID := requestID_of env_first ''user1'',
                             CostTime := cost_ms env_first\<rparr>
      in (Inr result,
          if Result result \<noteq> ResultTypeReject
          then cacheResult env_first service0 (cacheKey_of runtime0 ''hello'') result
                 (CacheTTL (cfg service0) * 1000000000)
          else service0))"
    unfolding first_call_def by (rule CheckContent_miss [OF _ miss]) simp
  then show ?thesis
    by (simp add: c d e Let_def first_result_def cacheResult_def)
qed


section \<open>The fallback mode of the remote detectors\<close>








section \<open>A batch with failed items\<close>

lemma errorsOf_Nil: "errorsOf [] = []"
  by (simp add: errorsOf_def)

lemma errorsOf_Cons:
  "errorsOf (msg # msgs) = (case outcome msg of Inl e \<Rightarrow> [e] | Inr r \<Rightarrow> []) @ errorsOf msgs"
  by (simp add: errorsOf_def)

lemma collectResults_error:
  "snd (collectResults msgs resultMap lastError) =
     (if errorsOf msgs = [] then lastError else Some (last (errorsOf msgs)))"
  by (induction msgs arbitrary: resultMap lastError)
     (simp_all add: errorsOf_Nil errorsOf_Cons split: sum.split)

lemma collectResults_None:
  "fst (collectResults msgs resultMap lastError) i = None \<longleftrightarrow>
     resultMap i = None \<and> (\<forall>msg \<in> set msgs. index msg = i \<longrightarrow> (\<exists>e. outcome msg = Inl e))"
  by (induction msgs arbitrary: resultMap lastError) (auto split: sum.split)

lemma collectResults_Some:
  "fst (collectResults msgs resultMap lastError) i = Some r \<Longrightarrow>
     resultMap i = Some r \<or> (\<exists>msg \<in> set msgs. index msg = i \<and> outcome msg = Inr r)"
proof (induction msgs arbitrary: resultMap lastError)
  case Nil
  then show ?case by simp
next
  case (Cons msg msgs)
  show ?case
  proof (cases "outcome msg")
    case (Inl e)
    with Cons.prems have "fst (collectResults msgs resultMap (Some e)) i = Some r" by simp
    then have "resultMap i = Some r \<or> (\<exists>m \<in> set msgs. index m = i \<and> outcome m = Inr r)"
      by (rule Cons.IH)
    then show ?thesis by auto
  next
    case (Inr r')
    with Cons.prems
    have "fst (collectResults msgs (resultMap(index msg \<mapsto> r')) lastError) i = Some r" by simp
    then have "(resultMap(index msg \<mapsto> r')) i = Some r \<or>
               (\<exists>m \<in> set msgs. index m = i \<and> outcome m = Inr r)"
      by (rule Cons.IH)
    with Inr show ?thesis by (auto split: if_splits)
  qed
qed

lemma failedResult_fields:
  "Result (failedResult batchID i) = ResultTypePass"
  "RiskScore (failedResult batchID i) = 0"
  "map_of (Extra (failedResult batchID i)) ''error'' \<noteq> None"
  by (simp_all add: failedResult_def)

text \<open>
  C9: let the batch not be empty and the slice not panic, and let every task send its one
  message, in whatever order. Then \<open>BatchCheckContent\<close> returns a result list with one
  entry for every item (of the batch cut to \<open>BatchCheckMaxSize\<close>), in the order of the
  items: for an item whose check failed, the default result with the verdict Pass, the risk
  score 0 and the key \<open>error\<close> in \<open>Extra\<close>; for every other item, the result of its check.
  Together with the list it returns the error of the last failed message that was received,
  and no error when no check failed.
\<close>

theorem C9_batch_partial_failure:
  assumes "items \<noteq> []"
    and "\<not> (int (length items) > BatchCheckMaxSize config \<and> BatchCheckMaxSize config < 0)"
    and "\<And>msgs. mset (channel msgs) = mset msgs"
    and "items' = (if int (length items) > BatchCheckMaxSize config
                   then take (nat (BatchCheckMaxSize config)) items else items)"
    and "sent = map (\<lambda>idx. \<lparr>index = idx, outcome = check idx (items' ! idx)\<rparr>)
                  [0..<length items']"
  shows "\<exists>res err.
           BatchCheckContent config check channel total_ms items batchID = Returns (Some res, err) \<and>
           BatchID res = batchID \<and> length (Results res) = length items' \<and>
           (\<forall>i < length items'.
              (\<forall>e. check i (items' ! i) = Inl e \<longrightarrow>
                 Results res ! i = failedResult batchID i \<and>
                 Result (Results res ! i) = ResultTypePass \<and> RiskScore (Results res ! i) = 0 \<and>
                 map_of (Extra (Results res ! i)) ''error'' \<noteq> None) \<and>
              (\<forall>r. check i (items' ! i) = Inr r \<longrightarrow> Results res ! i = r)) \<and>
           err = (if errorsOf (channel sent) = [] then None
                  else Some (last (errorsOf (channel sent))))"
proof -
  let ?n = "length items'"
  obtain resultMap lastError where c: "collectResults (channel sent) Map.empty None = (resultMap, lastError)"
    by (cases "collectResults (channel sent) Map.empty None")
  let ?res = "\<lparr>BatchID = batchID,
                Results = map (\<lambda>i. case resultMap i of Some res \<Rightarrow> res
                                    | None \<Rightarrow> failedResult batchID i) [0..<?n],
                TotalCostTime = total_ms\<rparr>"
  have ret: "BatchCheckContent config check channel total_ms items batchID =
               Returns (Some ?res, lastError)"
    using assms(1,2) c
    by (simp add: BatchCheckContent_def Let_def assms(4) [symmetric] assms(5) [symmetric])
  have set_eq: "set (channel sent) = set sent"
    using assms(3) [of sent] by (rule mset_eq_setD)
  have msgs: "msg \<in> set sent \<longleftrightarrow> (\<exists>i < ?n. msg = \<lparr>index = i, outcome = check i (items' ! i)\<rparr>)"
    for msg
    by (auto simp: assms(5))
  have rm: "resultMap = fst (collectResults (channel sent) Map.empty None)"
    and le: "lastError = snd (collectResults (channel sent) Map.empty None)"
    using c by simp_all
  have fail: "resultMap i = None" if "i < ?n" "check i (items' ! i) = Inl e" for i e
    unfolding rm collectResults_None set_eq using that by (auto simp: msgs)
  have ok: "resultMap i = Some r" if "i < ?n" "check i (items' ! i) = Inr r" for i r
  proof (cases "resultMap i")
    case None
    then have "\<forall>msg \<in> set sent. index msg = i \<longrightarrow> (\<exists>e. outcome msg = Inl e)"
      unfolding rm collectResults_None set_eq by simp
    moreover from that(1) have "\<lparr>index = i, outcome = check i (items' ! i)\<rparr> \<in> set sent"
      by (auto simp: msgs)
    ultimately show ?thesis using that(2) by fastforce
  next
    case (Some r')
    then have "\<exists>msg \<in> set sent. index msg = i \<and> outcome msg = Inr r'"
      unfolding rm using collectResults_Some [of "channel sent" Map.empty None i r'] set_eq
      by simp
    then have "check i (items' ! i) = Inr r'" by (auto simp: msgs)
    with that(2) Some show ?thesis by simp
  qed
  have err: "lastError = (if errorsOf (channel sent) = [] then None
                          else Some (last (errorsOf (channel sent))))"
    unfolding le by (simp add: collectResults_error)
  have per: "\<forall>i < ?n.
              (\<forall>e. check i (items' ! i) = Inl e \<longrightarrow>
                 Results ?res ! i = failedResult batchID i \<and>
                 Result (Results ?res ! i) = ResultTypePass \<and> RiskScore (Results ?res ! i) = 0 \<and>
                 map_of (Extra (Results ?res ! i)) ''error'' \<noteq> None) \<and>
              (\<forall>r. check i (items' ! i) = Inr r \<longrightarrow> Results ?res ! i = r)"
  proof (intro allI impI conjI)
    fix i e
    assume i: "i < ?n" and "check i (items' ! i) = Inl e"
    then have "resultMap i = None" by (rule fail)
    with i show f: "Results ?res ! i = failedResult batchID i" by simp
    show "Result (Results ?res ! i) = ResultTypePass" "RiskScore (Results ?res ! i) = 0"
      "map_of (Extra (Results ?res ! i)) ''error'' \<noteq> None"
      unfolding f by (rule failedResult_fields)+
  next
    fix i r
    assume i: "i < ?n" and "check i (items' ! i) = Inr r"
    then have "resultMap i = Some r" by (rule ok)
    with i show "Results ?res ! i = r" by simp
  qed
  have len: "length (Results ?res) = ?n" by simp
  have bid: "BatchID ?res = batchID" by simp
  from ret bid len per err show ?thesis by blast
qed


lemma check_seq_batch:
  "check_seq 0 (batch_items ! 0) = Inr first_result"
  "check_seq 1 (batch_items ! 1) = Inl ErrEmptyContent"
  "\<exists>r. check_seq 2 (batch_items ! 2) = Inr r"
proof -
  show "check_seq 0 (batch_items ! 0) = Inr first_result"
    using first_call_eq by (simp add: check_seq_def batch_items_def first_call_def)
  show "check_seq 1 (batch_items ! 1) = Inl ErrEmptyContent"
    by (simp add: check_seq_def batch_items_def CheckContent_def)
  have "getCachedResult env_first service0 (cacheKey_of runtime0 ''hello'') = None"
    by (simp add: getCachedResult_def service0_def)
  then show "\<exists>r. check_seq 2 (batch_items ! 2) = Inr r"
    by (simp add: check_seq_def batch_items_def CheckContent_miss Let_def)
qed

theorem C9_batch_partial_failure_witness:
  "batch_items \<noteq> [] \<and>
   \<not> (int (length batch_items) > BatchCheckMaxSize config70 \<and> BatchCheckMaxSize config70 < 0) \<and>
   (\<exists>res. BatchCheckContent config70 check_seq rev 5 batch_items ''b1'' =
            Returns (Some res, Some ErrEmptyContent) \<and>
          length (Results res) = 3 \<and> Results res ! 0 = first_result \<and>
          Results res ! 1 = failedResult ''b1'' 1 \<and>
          Result (Results res ! 1) = ResultTypePass \<and> RiskScore (Results res ! 1) = 0)"
proof -
  have ne: "batch_items \<noteq> []" by (simp add: batch_items_def)
  have np: "\<not> (int (length batch_items) > BatchCheckMaxSize config70 \<and>
                BatchCheckMaxSize config70 < 0)"
    by (simp add: config70_def)
  have pm: "mset (rev msgs) = mset msgs" for msgs :: "batchResult list" by simp
  have it: "(if int (length batch_items) > BatchCheckMaxSize config70
             then take (nat (BatchCheckMaxSize config70)) batch_items else batch_items) = batch_items"
    by (simp add: config70_def batch_items_def)
  have n: "length batch_items = 3" by (simp add: batch_items_def)
  have up: "[0..<3] = [0, 1, 2::nat]" by (simp add: upt_rec)
  have er: "errorsOf (rev (map (\<lambda>idx. \<lparr>index = idx, outcome = check_seq idx (batch_items ! idx)\<rparr>)
                              [0..<length batch_items])) = [ErrEmptyContent]"
    using check_seq_batch by (auto simp: n up errorsOf_def)
  from C9_batch_partial_failure [OF ne np pm refl refl, of check_seq 5 "''b1''"]
  obtain res err where r:
    "BatchCheckContent config70 check_seq rev 5 batch_items ''b1'' = Returns (Some res, err)"
    "length (Results res) = length batch_items"
    "\<forall>i < length batch_items.
       (\<forall>e. check_seq i (batch_items ! i) = Inl e \<longrightarrow>
          Results res ! i = failedResult ''b1'' i \<and>
          Result (Results res ! i) = ResultTypePass \<and> RiskScore (Results res ! i) = 0 \<and>
          map_of (Extra (Results res ! i)) ''error'' \<noteq> None) \<and>
       (\<forall>r. check_seq i (batch_items ! i) = Inr r \<longrightarrow> Results res ! i = r)"
    "err = (if errorsOf (rev (map (\<lambda>idx. \<lparr>index = idx,
                                             outcome = check_seq idx (batch_items ! idx)\<rparr>)
                                 [0..<length batch_items])) = [] then None
            else Some (last (errorsOf (rev (map (\<lambda>idx. \<lparr>index = idx,
                                             outcome = check_seq idx (batch_items ! idx)\<rparr>)
                                 [0..<length batch_items])))))"
    unfolding it by blast
  from r(4) have e: "err = Some ErrEmptyContent" by (simp add: er)
  from r(3) n check_seq_batch(1) have r0: "Results res ! 0 = first_result" by simp
  from r(3) n check_seq_batch(2)
  have r1: "Results res ! 1 = failedResult ''b1'' 1 \<and>
            Result (Results res ! 1) = ResultTypePass \<and> RiskScore (Results res ! 1) = 0"
    by (simp add: failedResult_fields)
  from ne np r(1,2) n e r0 r1 show ?thesis by (simp add: failedResult_fields)
qed

section \<open>Reloading the sensitive words\<close>







end
